theory Spec2Isabelle
  imports Main
begin

section \<open>The notebook \<^verbatim>\<open>side_quests/qaoa/probleme_2.ipynb\<close> as a JSON value\<close>

text \<open>
  The repository's source is one Jupyter notebook and holds no function: the object of
  study is the notebook document itself. It is embedded as the JSON value the file
  denotes, key by key and in the file's order, so that each definition below can be read
  against the file. The escapes of the file are kept: \<^verbatim>\<open>\"\<close> is the double quote and
  \<^verbatim>\<open>\n\<close> is written \<open>\<newline>\<close>.
\<close>

datatype json =
    JNull
  | JBool bool
  | JNum int
  | JStr string
  | JArr "json list"
  | JObj "(string \<times> json) list"

subsection \<open>The cells\<close>

definition markdown_cell :: json where
  "markdown_cell =
    JObj [
      (''cell_type'', JStr ''markdown''),
      (''metadata'', JObj []),
      (''source'', JArr [
        JStr ''# Problem 2 : Partitionning the Bus Fleet\<newline>'',
        JStr ''\<newline>'',
        JStr ''In part 1, you were able to solve the simple MaxCut problem. Let's spice things up a bit by taking more information into account!\<newline>'',
        JStr ''\<newline>'',
        JStr ''## Problem Statement\<newline>'',
        JStr ''> The STS wishes to add 5 buses each serving a different line, to accomodate the growing need felt by users for the morning departures of 08:00 am and 08:30. Given that some bus lines intersect, we want to organize the buses into 2 groups. Ideally, we want the buses serving the same stops to depart at different times as much as possible.\<newline>'',
        JStr ''\<newline>'',
        JStr ''### Supplementary Information\<newline>'',
        JStr ''In this problem, all bus line intertsections are not equal.\<newline>'',
        JStr ''An **intersecting weight** is specified, corresponding to the number of common edges between two bus lines. This translates the fact that some bus lines have more stops in common than other and thus, partionning them into different groups takes priority.\<newline>'',
        JStr ''\<newline>'',
        JStr ''The following table summarizes the intersection weights for each bus line (i.e. the number of edges in common between each pair of bus lines):\<newline>'',
        JStr ''\<newline>'',
        JStr ''<p align=\"center\">\<newline>'',
        JStr ''<img src=\"figures/table_prob2_ENG.png\" alt=\"prob2\" width=\"500\"/>\<newline>'',
        JStr ''</p>\<newline>'',
        JStr ''\<newline>'',
        JStr ''**A larger weight** means that two bus lines shares a higher number of edges.\<newline>'',
        JStr ''\<newline>'',
        JStr ''## Goal\<newline>'',
        JStr ''Your goal is to **minimize the sum of intersection weights** in each departure group. In other words, you want to divide the departure lines sharing many stops.\<newline>'',
        JStr ''\<newline>'',
        JStr ''### How : You need to\<newline>'',
        JStr ''- encode the problem into a `SparsePauliOp` Hamiltonian\<newline>'',
        JStr ''- optimize the parameters of your QAOA circuit\<newline>'',
        JStr ''- select a good set of hyperparameters (number of layers, optimizer, ...)\<newline>'',
        JStr ''\<newline>'',
        JStr ''#### Evaluation : You must\<newline>'',
        JStr ''- Show a mentor that you were able to run your code correctly (showing cell outputs is sufficient)\<newline>'',
        JStr ''- Show the optimal solutions you identified for this problem''])]"

definition code_cell_1 :: json where
  "code_cell_1 =
    JObj [
      (''cell_type'', JStr ''code''),
      (''execution_count'', JNull),
      (''metadata'', JObj []),
      (''outputs'', JArr []),
      (''source'', JArr [
        JStr ''# Instanciate your Hamiltonian''])]"

definition code_cell_2 :: json where
  "code_cell_2 =
    JObj [
      (''cell_type'', JStr ''code''),
      (''execution_count'', JNull),
      (''metadata'', JObj []),
      (''outputs'', JArr []),
      (''source'', JArr [
        JStr ''# Instanciate your QAOA circuit''])]"

definition code_cell_3 :: json where
  "code_cell_3 =
    JObj [
      (''cell_type'', JStr ''code''),
      (''execution_count'', JNull),
      (''metadata'', JObj []),
      (''outputs'', JArr []),
      (''source'', JArr [
        JStr ''# Hyperparameter optimisation''])]"

definition code_cell_4 :: json where
  "code_cell_4 =
    JObj [
      (''cell_type'', JStr ''code''),
      (''execution_count'', JNull),
      (''metadata'', JObj []),
      (''outputs'', JArr []),
      (''source'', JArr [
        JStr ''# Result analysis and identified solutions''])]"

definition notebook_metadata :: json where
  "notebook_metadata =
    JObj [
      (''kernelspec'', JObj [
        (''display_name'', JStr ''test1_codefest2025_venv''),
        (''language'', JStr ''python''),
        (''name'', JStr ''python3'')]),
      (''language_info'', JObj [
        (''codemirror_mode'', JObj [
          (''name'', JStr ''ipython''),
          (''version'', JNum 3)]),
        (''file_extension'', JStr ''.py''),
        (''mimetype'', JStr ''text/x-python''),
        (''name'', JStr ''python''),
        (''nbconvert_exporter'', JStr ''python''),
        (''pygments_lexer'', JStr ''ipython3''),
        (''version'', JStr ''3.12.2'')])]"

subsection \<open>The document and the source tree\<close>

definition notebook :: json where
  "notebook =
    JObj [
      (''cells'', JArr [markdown_cell, code_cell_1, code_cell_2, code_cell_3, code_cell_4]),
      (''metadata'', notebook_metadata),
      (''nbformat'', JNum 4),
      (''nbformat_minor'', JNum 2)]"

text \<open>The source tree: each file's path from the root, with what the file denotes.\<close>

definition notebook_path :: string where
  "notebook_path = ''side_quests/qaoa/probleme_2.ipynb''"

definition repository :: "(string \<times> json) list" where
  "repository = [(notebook_path, notebook)]"

section \<open>Reading a notebook\<close>

text \<open>
  Access as in the notebook format (nbformat 4): a notebook is an object with a list
  \<^verbatim>\<open>cells\<close>; a cell is an object with a \<^verbatim>\<open>cell_type\<close> and a \<^verbatim>\<open>source\<close>, which is a
  string or a list of strings to be joined; a code cell also has \<^verbatim>\<open>execution_count\<close>
  and \<^verbatim>\<open>outputs\<close>. A missing key is \<open>None\<close>, as \<^verbatim>\<open>dict.get\<close> gives.
\<close>

fun obj_get :: "string \<Rightarrow> json \<Rightarrow> json option" where
  "obj_get k (JObj kvs) = map_of kvs k"
| "obj_get k _ = None"

fun elems :: "json option \<Rightarrow> json list" where
  "elems (Some (JArr xs)) = xs"
| "elems _ = []"

fun str_of :: "json option \<Rightarrow> string option" where
  "str_of (Some (JStr s)) = Some s"
| "str_of _ = None"

fun num_of :: "json option \<Rightarrow> int option" where
  "num_of (Some (JNum n)) = Some n"
| "num_of _ = None"

definition cells :: "json \<Rightarrow> json list" where
  "cells nb = elems (obj_get ''cells'' nb)"

definition cell_type :: "json \<Rightarrow> string option" where
  "cell_type c = str_of (obj_get ''cell_type'' c)"

definition is_code_cell :: "json \<Rightarrow> bool" where
  "is_code_cell c = (cell_type c = Some ''code'')"

definition is_markdown_cell :: "json \<Rightarrow> bool" where
  "is_markdown_cell c = (cell_type c = Some ''markdown'')"

definition code_cells :: "json \<Rightarrow> json list" where
  "code_cells nb = filter is_code_cell (cells nb)"

definition markdown_cells :: "json \<Rightarrow> json list" where
  "markdown_cells nb = filter is_markdown_cell (cells nb)"

definition execution_count :: "json \<Rightarrow> json option" where
  "execution_count c = obj_get ''execution_count'' c"

definition outputs :: "json \<Rightarrow> json option" where
  "outputs c = obj_get ''outputs'' c"

fun json_text :: "json \<Rightarrow> string" where
  "json_text (JStr s) = s"
| "json_text _ = []"

fun source_lines :: "json option \<Rightarrow> string list" where
  "source_lines (Some (JStr s)) = [s]"
| "source_lines (Some (JArr xs)) = map json_text xs"
| "source_lines _ = []"

definition source :: "json \<Rightarrow> string list" where
  "source c = source_lines (obj_get ''source'' c)"

definition source_text :: "json \<Rightarrow> string" where
  "source_text c = concat (source c)"

definition kernel_language :: "json \<Rightarrow> string option" where
  "kernel_language nb =
     (case obj_get ''metadata'' nb of
        None \<Rightarrow> None
      | Some m \<Rightarrow>
          (case obj_get ''kernelspec'' m of
             None \<Rightarrow> None
           | Some k \<Rightarrow> str_of (obj_get ''language'' k)))"

definition language_name :: "json \<Rightarrow> string option" where
  "language_name nb =
     (case obj_get ''metadata'' nb of
        None \<Rightarrow> None
      | Some m \<Rightarrow>
          (case obj_get ''language_info'' m of
             None \<Rightarrow> None
           | Some k \<Rightarrow> str_of (obj_get ''name'' k)))"

definition nbformat :: "json \<Rightarrow> int option" where
  "nbformat nb = num_of (obj_get ''nbformat'' nb)"

definition nbformat_minor :: "json \<Rightarrow> int option" where
  "nbformat_minor nb = num_of (obj_get ''nbformat_minor'' nb)"

section \<open>Prefixes and phrases of a text\<close>

text \<open>
  \<open>starts_with p s\<close>: the text \<open>s\<close> begins with \<open>p\<close>, as \<^verbatim>\<open>s.startswith(p)\<close>;
  \<open>contains sub s\<close>: \<open>sub\<close> occurs somewhere in \<open>s\<close>, as \<^verbatim>\<open>sub in s\<close>.
\<close>

fun starts_with :: "string \<Rightarrow> string \<Rightarrow> bool" where
  "starts_with [] s = True"
| "starts_with (p # ps) [] = False"
| "starts_with (p # ps) (c # cs) = (p = c \<and> starts_with ps cs)"

fun contains :: "string \<Rightarrow> string \<Rightarrow> bool" where
  "contains sub [] = (sub = [])"
| "contains sub (c # cs) = (starts_with sub (c # cs) \<or> contains sub cs)"

section \<open>Python source lines\<close>

text \<open>
  The text of a code cell is Python. Only its line structure is needed here: the text is
  cut at each newline; a line whose first character after leading white space is \<^verbatim>\<open>#\<close>
  is a comment, a line of white space only is blank, and every other line is taken to
  hold (part of) a statement. A comment cannot continue a statement of an earlier line
  unless that earlier line is itself not blank and not a comment, so a text with no
  \<open>Statement\<close> line holds no statement at all.
\<close>

primrec split_lines :: "string \<Rightarrow> string list" where
  "split_lines [] = [[]]"
| "split_lines (c # cs) =
     (if c = CHR ''\<newline>'' then [] # split_lines cs
      else (case split_lines cs of [] \<Rightarrow> [[c]] | l # ls \<Rightarrow> (c # l) # ls))"

definition is_space :: "char \<Rightarrow> bool" where
  "is_space c = (c = CHR '' '' \<or> c = CHR 0x09 \<or> c = CHR 0x0C \<or> c = CHR 0x0D)"

datatype line_kind = Blank | Comment | Statement

definition classify_line :: "string \<Rightarrow> line_kind" where
  "classify_line l =
     (case dropWhile is_space l of
        [] \<Rightarrow> Blank
      | c # cs \<Rightarrow> if c = CHR ''#'' then Comment else Statement)"

definition cell_lines :: "json \<Rightarrow> string list" where
  "cell_lines c = split_lines (source_text c)"

definition executable_lines :: "json \<Rightarrow> string list" where
  "executable_lines c = filter (\<lambda>l. classify_line l = Statement) (cell_lines c)"

text \<open>The label of a placeholder: the text of a comment line after its \<^verbatim>\<open>#\<close>.\<close>

definition comment_label :: "string \<Rightarrow> string option" where
  "comment_label l =
     (case dropWhile is_space l of
        [] \<Rightarrow> None
      | c # cs \<Rightarrow> if c = CHR ''#'' then Some (dropWhile is_space cs) else None)"

definition cell_labels :: "json \<Rightarrow> string option list" where
  "cell_labels c = map comment_label (cell_lines c)"

definition single_comment_line :: "json \<Rightarrow> bool" where
  "single_comment_line c = (case cell_lines c of [l] \<Rightarrow> starts_with ''#'' l | _ \<Rightarrow> False)"

subsection \<open>Running the code cells\<close>

text \<open>
  Running a notebook executes its code cells in order in one namespace, here the list of
  the names bound so far, and stops at the first error. Of Python only what the cells of
  this notebook need is modelled: a blank line and a comment do nothing. Any other line
  is outside the model and is reported as such, never taken to succeed.
\<close>

datatype py_error = NotModelled string

definition exec_line :: "string list \<Rightarrow> string \<Rightarrow> py_error + string list" where
  "exec_line ns l =
     (case classify_line l of
        Blank \<Rightarrow> Inr ns
      | Comment \<Rightarrow> Inr ns
      | Statement \<Rightarrow> Inl (NotModelled l))"

fun exec_lines :: "string list \<Rightarrow> string list \<Rightarrow> py_error + string list" where
  "exec_lines ns [] = Inr ns"
| "exec_lines ns (l # ls) =
     (case exec_line ns l of Inl e \<Rightarrow> Inl e | Inr ns' \<Rightarrow> exec_lines ns' ls)"

definition exec_cell :: "string list \<Rightarrow> json \<Rightarrow> py_error + string list" where
  "exec_cell ns c = exec_lines ns (cell_lines c)"

fun run_cells :: "string list \<Rightarrow> json list \<Rightarrow> py_error + string list" where
  "run_cells ns [] = Inr ns"
| "run_cells ns (c # cs) =
     (case exec_cell ns c of Inl e \<Rightarrow> Inl e | Inr ns' \<Rightarrow> run_cells ns' cs)"

definition run_all :: "json \<Rightarrow> string list \<Rightarrow> py_error + string list" where
  "run_all nb ns = run_cells ns (code_cells nb)"

section \<open>References to other files\<close>

text \<open>
  A cell refers to another file through an HTML attribute \<^verbatim>\<open>src\<close> or \<^verbatim>\<open>href\<close>, or through
  the target of a markdown link or image, \<^verbatim>\<open>](target)\<close>. A reference to a resource
  elsewhere would carry a scheme, \<^verbatim>\<open>://\<close>.
\<close>

text \<open>Every stretch of the text that follows an occurrence of \<open>opening\<close>, up to \<open>closing\<close>.\<close>

fun delimited :: "string \<Rightarrow> char \<Rightarrow> string \<Rightarrow> string list" where
  "delimited opening closing [] = []"
| "delimited opening closing (c # cs) =
     (if starts_with opening (c # cs)
      then takeWhile (\<lambda>x. x \<noteq> closing) (drop (length opening) (c # cs))
             # delimited opening closing cs
      else delimited opening closing cs)"

text \<open>
  One step of \<open>delimited\<close> with the test on the text handed over as a truth value: the
  form in which a long text is evaluated, one rewrite for each position.
\<close>

definition delim_step :: "bool \<Rightarrow> string \<Rightarrow> char \<Rightarrow> string \<Rightarrow> string list" where
  "delim_step b opening closing s =
     (if b
      then takeWhile (\<lambda>x. x \<noteq> closing) (drop (length opening) s)
             # delimited opening closing (tl s)
      else delimited opening closing (tl s))"

definition asset_refs :: "string \<Rightarrow> string list" where
  "asset_refs s =
     delimited ''src=\"'' (CHR 0x22) s @ delimited ''href=\"'' (CHR 0x22) s
     @ delimited (''src='' @ [CHR 0x27]) (CHR 0x27) s
     @ delimited (''href='' @ [CHR 0x27]) (CHR 0x27) s
     @ delimited '']('' (CHR '')'') s"

fun all_strings :: "json \<Rightarrow> string list" where
  "all_strings (JStr s) = [s]"
| "all_strings (JArr xs) = concat (map all_strings xs)"
| "all_strings (JObj kvs) = concat (map (\<lambda>kv. all_strings (snd kv)) kvs)"
| "all_strings _ = []"

text \<open>Paths: a reference of a notebook is relative to the notebook's directory.\<close>

definition dirname :: "string \<Rightarrow> string" where
  "dirname p =
     (case dropWhile (\<lambda>c. c \<noteq> CHR ''/'') (rev p) of
        [] \<Rightarrow> []
      | c # cs \<Rightarrow> rev cs)"

definition resolve :: "string \<Rightarrow> string \<Rightarrow> string" where
  "resolve nb_path r = (if dirname nb_path = [] then r else dirname nb_path @ ''/'' @ r)"

definition cell_refs :: "json \<Rightarrow> string list" where
  "cell_refs nb = concat (map (\<lambda>c. asset_refs (source_text c)) (cells nb))"

definition dangling_refs :: "(string \<times> json) list \<Rightarrow> (string \<times> string) list" where
  "dangling_refs repo =
     concat (map (\<lambda>(p, nb).
       map (\<lambda>r. (p, r)) (filter (\<lambda>r. map_of repo (resolve p r) = None) (cell_refs nb))) repo)"

section \<open>Facts shared by the properties\<close>

lemma cells_notebook:
  "cells notebook = [markdown_cell, code_cell_1, code_cell_2, code_cell_3, code_cell_4]"
  by (simp add: cells_def notebook_def)

lemma cell_type_markdown_cell: "cell_type markdown_cell = Some ''markdown''"
  by (simp add: cell_type_def markdown_cell_def)

lemma cell_type_code_cells:
  "cell_type code_cell_1 = Some ''code''"
  "cell_type code_cell_2 = Some ''code''"
  "cell_type code_cell_3 = Some ''code''"
  "cell_type code_cell_4 = Some ''code''"
  by (simp_all add: cell_type_def code_cell_1_def code_cell_2_def code_cell_3_def code_cell_4_def)

lemma code_cells_notebook:
  "code_cells notebook = [code_cell_1, code_cell_2, code_cell_3, code_cell_4]"
  by (simp add: code_cells_def cells_notebook is_code_cell_def
      cell_type_markdown_cell cell_type_code_cells)

lemma markdown_cells_notebook: "markdown_cells notebook = [markdown_cell]"
  by (simp add: markdown_cells_def cells_notebook is_markdown_cell_def
      cell_type_markdown_cell cell_type_code_cells)

lemmas code_cell_defs = code_cell_1_def code_cell_2_def code_cell_3_def code_cell_4_def

subsection \<open>Evaluating a scan of a long text\<close>

lemma delimited_step:
  "delimited opening closing (c # cs) =
     delim_step (starts_with opening (c # cs)) opening closing (c # cs)"
  by (simp add: delim_step_def)

lemma delim_step_False: "delim_step False opening closing (c # cs) = delimited opening closing cs"
  by (simp add: delim_step_def)

lemma delim_step_True:
  "delim_step True opening closing (c # cs) =
     takeWhile (\<lambda>x. x \<noteq> closing) (drop (length opening) (c # cs)) # delimited opening closing cs"
  by (simp add: delim_step_def)

lemmas delimited_eval = delimited_step delim_step_False delim_step_True

subsection \<open>The code cells, line by line\<close>

lemma cell_lines_code_cells:
  "cell_lines code_cell_1 = [''# Instanciate your Hamiltonian'']"
  "cell_lines code_cell_2 = [''# Instanciate your QAOA circuit'']"
  "cell_lines code_cell_3 = [''# Hyperparameter optimisation'']"
  "cell_lines code_cell_4 = [''# Result analysis and identified solutions'']"
  by (simp_all add: cell_lines_def source_text_def source_def code_cell_defs)

lemma classify_code_cells:
  "map classify_line (cell_lines code_cell_1) = [Comment]"
  "map classify_line (cell_lines code_cell_2) = [Comment]"
  "map classify_line (cell_lines code_cell_3) = [Comment]"
  "map classify_line (cell_lines code_cell_4) = [Comment]"
  by (simp_all add: cell_lines_code_cells classify_line_def is_space_def)

lemma executable_lines_code_cells:
  "executable_lines code_cell_1 = []"
  "executable_lines code_cell_2 = []"
  "executable_lines code_cell_3 = []"
  "executable_lines code_cell_4 = []"
  by (simp_all add: executable_lines_def cell_lines_code_cells classify_line_def is_space_def)

lemma cell_labels_code_cells:
  "cell_labels code_cell_1 = [Some ''Instanciate your Hamiltonian'']"
  "cell_labels code_cell_2 = [Some ''Instanciate your QAOA circuit'']"
  "cell_labels code_cell_3 = [Some ''Hyperparameter optimisation'']"
  "cell_labels code_cell_4 = [Some ''Result analysis and identified solutions'']"
  by (simp_all add: cell_labels_def cell_lines_code_cells comment_label_def is_space_def)

subsection \<open>A text with no statement runs to the end and binds nothing\<close>

lemma exec_lines_no_statement:
  "filter (\<lambda>l. classify_line l = Statement) ls = [] \<Longrightarrow> exec_lines ns ls = Inr ns"
proof (induction ls)
  case Nil
  show ?case by simp
next
  case (Cons l ls)
  from Cons.prems have l: "classify_line l \<noteq> Statement"
    and ls: "filter (\<lambda>l. classify_line l = Statement) ls = []"
    by (simp_all split: if_splits)
  from l have "exec_line ns l = Inr ns"
    by (cases "classify_line l") (simp_all add: exec_line_def)
  with Cons.IH [OF ls] show ?case by simp
qed

lemma exec_cell_no_statement: "executable_lines c = [] \<Longrightarrow> exec_cell ns c = Inr ns"
  by (simp add: exec_cell_def executable_lines_def exec_lines_no_statement)

lemma run_cells_no_statement:
  "list_all (\<lambda>c. executable_lines c = []) cs \<Longrightarrow> run_cells ns cs = Inr ns"
  by (induction cs) (simp_all add: exec_cell_no_statement)

subsection \<open>The references of each cell\<close>

lemma asset_refs_markdown_cell:
  "asset_refs (source_text markdown_cell) = [''figures/table_prob2_ENG.png'']"
  by (simp add: asset_refs_def source_text_def source_def markdown_cell_def delimited_eval
      del: delimited.simps(2))

lemma asset_refs_code_cells:
  "asset_refs (source_text code_cell_1) = []"
  "asset_refs (source_text code_cell_2) = []"
  "asset_refs (source_text code_cell_3) = []"
  "asset_refs (source_text code_cell_4) = []"
  by (simp_all add: asset_refs_def source_text_def source_def code_cell_defs delimited_eval
      del: delimited.simps(2))

lemma cell_refs_notebook: "cell_refs notebook = [''figures/table_prob2_ENG.png'']"
  by (simp add: cell_refs_def cells_notebook asset_refs_markdown_cell asset_refs_code_cells)

subsection \<open>A phrase of one source line is a phrase of the cell's text\<close>

lemma contains_append_left: "contains sub s \<Longrightarrow> contains sub (p @ s)"
  by (induction p) simp_all

lemma starts_with_append: "starts_with sub s \<Longrightarrow> starts_with sub (s @ t)"
  by (induction sub s rule: starts_with.induct) simp_all

lemma contains_append_right: "contains sub s \<Longrightarrow> contains sub (s @ t)"
proof (induction s)
  case Nil
  then show ?case by (cases t) simp_all
next
  case (Cons c s)
  then show ?case using starts_with_append [of sub "c # s" t] by auto
qed

lemma contains_concat:
  "l \<in> set ls \<Longrightarrow> contains sub l \<Longrightarrow> contains sub (concat ls)"
  by (induction ls) (auto intro: contains_append_left contains_append_right)

subsection \<open>The strings of the notebook, and the lines of its markdown cell\<close>

lemma metadata_notebook: "obj_get ''metadata'' notebook = Some notebook_metadata"
  by (simp add: notebook_def)

lemma all_strings_metadata:
  "all_strings notebook_metadata =
     [''test1_codefest2025_venv'', ''python'', ''python3'', ''ipython'', ''.py'',
      ''text/x-python'', ''python'', ''python'', ''ipython3'', ''3.12.2'']"
  by (simp add: notebook_metadata_def)

lemma all_strings_notebook:
  "all_strings notebook =
     ''markdown'' # source markdown_cell
     @ [''code'', ''# Instanciate your Hamiltonian'',
        ''code'', ''# Instanciate your QAOA circuit'',
        ''code'', ''# Hyperparameter optimisation'',
        ''code'', ''# Result analysis and identified solutions'']
     @ all_strings notebook_metadata"
  by (simp add: notebook_def source_def markdown_cell_def code_cell_1_def code_cell_2_def
      code_cell_3_def code_cell_4_def)

lemma no_scheme_in_markdown: "filter (contains ''://'') (source markdown_cell) = []"
  by (simp add: source_def markdown_cell_def)

lemma no_scheme_anywhere: "filter (contains ''://'') (all_strings notebook) = []"
  by (simp add: all_strings_notebook no_scheme_in_markdown all_strings_metadata)

lemma phrase_in_markdown_text:
  "l \<in> set (source markdown_cell) \<Longrightarrow> contains sub l \<Longrightarrow> contains sub (source_text markdown_cell)"
  unfolding source_text_def by (rule contains_concat)

lemma source_markdown_5:
  "source markdown_cell ! 5 = ''> The STS wishes to add 5 buses each serving a different line, to accomodate the growing need felt by users for the morning departures of 08:00 am and 08:30. Given that some bus lines intersect, we want to organize the buses into 2 groups. Ideally, we want the buses serving the same stops to depart at different times as much as possible.\<newline>''"
  by (simp add: source_def markdown_cell_def)

lemma length_source_markdown: "length (source markdown_cell) = 30"
  by (simp add: source_def markdown_cell_def)

lemma no_table_in_markdown:
  "\<not> contains ''|'' (source_text markdown_cell)"
  "\<not> contains ''<table'' (source_text markdown_cell)"
  by (simp_all add: source_text_def source_def markdown_cell_def)

lemma source_markdown_11:
  "source markdown_cell ! 11 = ''The following table summarizes the intersection weights for each bus line (i.e. the number of edges in common between each pair of bus lines):\<newline>''"
  by (simp add: source_def markdown_cell_def)

lemma source_markdown_14:
  "source markdown_cell ! 14 = ''<img src=\"figures/table_prob2_ENG.png\" alt=\"prob2\" width=\"500\"/>\<newline>''"
  by (simp add: source_def markdown_cell_def)

lemma phrase_in_markdown_line:
  assumes "i < 30" and "contains sub (source markdown_cell ! i)"
  shows "contains sub (source_text markdown_cell)"
proof -
  from assms(1) have "source markdown_cell ! i \<in> set (source markdown_cell)"
    by (simp add: length_source_markdown)
  then show ?thesis using assms(2) by (rule phrase_in_markdown_text)
qed

section \<open>The properties\<close>

text \<open>
  The labels of the four code cells are not the four that C1 quotes: the notebook writes
  \<^verbatim>\<open>Instanciate\<close> and \<^verbatim>\<open>optimisation\<close>, and its last label goes on after
  \<^verbatim>\<open>Result analysis\<close>.
\<close>

theorem code_cell_labels_not_as_quoted:
  "map cell_labels (code_cells notebook) \<noteq>
     [[Some ''Instantiate your Hamiltonian''],
      [Some ''Instantiate your QAOA circuit''],
      [Some ''Hyperparameter optimization''],
      [Some ''Result analysis'']]"
  by (simp add: code_cells_notebook cell_labels_code_cells)

text \<open>
  C1, as the notebook has it. The four code cells are placeholders: each holds one comment
  line and no statement, and their labels are, in this order, \<^verbatim>\<open>Instanciate your Hamiltonian\<close>,
  \<^verbatim>\<open>Instanciate your QAOA circuit\<close>, \<^verbatim>\<open>Hyperparameter optimisation\<close> and
  \<^verbatim>\<open>Result analysis and identified solutions\<close>.
\<close>

theorem code_cell_labels_as_written:
  "map cell_labels (code_cells notebook) =
     [[Some ''Instanciate your Hamiltonian''],
      [Some ''Instanciate your QAOA circuit''],
      [Some ''Hyperparameter optimisation''],
      [Some ''Result analysis and identified solutions'']]
   \<and> map executable_lines (code_cells notebook) = [[], [], [], []]"
  by (simp add: code_cells_notebook cell_labels_code_cells executable_lines_code_cells)

text \<open>
  C2. No code cell holds an executable Python statement: the text of each of the four is
  one comment line, so no line of any code cell is a statement (no assignment, function,
  class or data structure), and every cell that is not a code cell is markdown.
\<close>

theorem code_cells_hold_no_statement:
  "list_all (\<lambda>c. executable_lines c = []) (code_cells notebook)
   \<and> map (\<lambda>c. map classify_line (cell_lines c)) (code_cells notebook)
       = [[Comment], [Comment], [Comment], [Comment]]
   \<and> filter (\<lambda>c. \<not> is_code_cell c) (cells notebook) = markdown_cells notebook"
  by (simp add: code_cells_notebook executable_lines_code_cells classify_code_cells
      cells_notebook markdown_cells_notebook is_code_cell_def
      cell_type_markdown_cell cell_type_code_cells)

text \<open>
  C3. The source tree is a single file, the notebook, and the notebook's cell list is
  exactly one markdown cell, whose heading names the problem of partitioning the bus
  fleet, followed by exactly four code cells.
\<close>

theorem one_notebook_one_markdown_four_code:
  "map fst repository = [''side_quests/qaoa/probleme_2.ipynb'']
   \<and> map_of repository ''side_quests/qaoa/probleme_2.ipynb'' = Some notebook
   \<and> map cell_type (cells notebook)
       = [Some ''markdown'', Some ''code'', Some ''code'', Some ''code'', Some ''code'']
   \<and> take 1 (source markdown_cell) = [''# Problem 2 : Partitionning the Bus Fleet\<newline>'']"
proof -
  have "take 1 (source markdown_cell) = [''# Problem 2 : Partitionning the Bus Fleet\<newline>'']"
    by (simp add: source_def markdown_cell_def)
  then show ?thesis
    by (simp add: repository_def notebook_path_def cells_notebook
        cell_type_markdown_cell cell_type_code_cells)
qed

text \<open>
  C4. Every code cell has \<^verbatim>\<open>execution_count\<close> null and \<^verbatim>\<open>outputs\<close> the empty list; there
  are four of them, and no cell of the notebook records an output.
\<close>

theorem code_cells_never_executed:
  "list_all (\<lambda>c. execution_count c = Some JNull \<and> outputs c = Some (JArr []))
     (code_cells notebook)
   \<and> length (code_cells notebook) = 4
   \<and> concat (map (\<lambda>c. elems (outputs c)) (cells notebook)) = []"
  by (simp add: code_cells_notebook cells_notebook execution_count_def outputs_def
      code_cell_defs markdown_cell_def)

text \<open>
  C5. The markdown cell describes the instance in prose: 5 buses, each on its own line,
  to be put into 2 groups, with an intersection weight for each pair of bus lines that is
  a number of common edges. The weights themselves are given by a table that the cell
  only points to, as the image \<^verbatim>\<open>figures/table_prob2_ENG.png\<close>: the cell's text holds no
  table of its own. The instance is nowhere written as code: the notebook has this one
  markdown cell, and no code cell holds a statement.
\<close>

theorem problem_instance_only_described:
  "contains ''add 5 buses each serving a different line'' (source_text markdown_cell)
   \<and> contains ''organize the buses into 2 groups'' (source_text markdown_cell)
   \<and> contains ''the intersection weights for each bus line (i.e. the number of edges in common between each pair of bus lines)'' (source_text markdown_cell)
   \<and> contains ''The following table summarizes'' (source_text markdown_cell)
   \<and> asset_refs (source_text markdown_cell) = [''figures/table_prob2_ENG.png'']
   \<and> \<not> contains ''|'' (source_text markdown_cell)
   \<and> \<not> contains ''<table'' (source_text markdown_cell)
   \<and> markdown_cells notebook = [markdown_cell]
   \<and> map executable_lines (code_cells notebook) = [[], [], [], []]"
proof -
  have "contains ''add 5 buses each serving a different line'' (source_text markdown_cell)"
    by (rule phrase_in_markdown_line [of 5]) (simp_all add: source_markdown_5)
  moreover have "contains ''organize the buses into 2 groups'' (source_text markdown_cell)"
    by (rule phrase_in_markdown_line [of 5]) (simp_all add: source_markdown_5)
  moreover have "contains ''the intersection weights for each bus line (i.e. the number of edges in common between each pair of bus lines)'' (source_text markdown_cell)"
    by (rule phrase_in_markdown_line [of 11]) (simp_all add: source_markdown_11)
  moreover have "contains ''The following table summarizes'' (source_text markdown_cell)"
    by (rule phrase_in_markdown_line [of 11]) (simp_all add: source_markdown_11)
  moreover have "map executable_lines (code_cells notebook) = [[], [], [], []]"
    by (simp add: code_cells_notebook executable_lines_code_cells)
  ultimately show ?thesis
    using asset_refs_markdown_cell no_table_in_markdown markdown_cells_notebook by simp
qed

text \<open>
  C6. The one file that the notebook refers to is the image \<^verbatim>\<open>figures/table_prob2_ENG.png\<close>:
  it is the only reference of the markdown cell, where it is the source of an \<^verbatim>\<open>img\<close>
  element; the code cells and the metadata hold no reference, and no string of the
  notebook holds a scheme \<^verbatim>\<open>://\<close>. No code cell holds a statement, so no cell defines a
  command line, a protocol, a file format or stored state.
\<close>

theorem only_reference_is_the_table_image:
  "map (\<lambda>c. asset_refs (source_text c)) (cells notebook)
     = [[''figures/table_prob2_ENG.png''], [], [], [], []]
   \<and> contains ''<img src=\"figures/table_prob2_ENG.png\"'' (source_text markdown_cell)
   \<and> obj_get ''metadata'' notebook = Some notebook_metadata
   \<and> concat (map asset_refs (all_strings notebook_metadata)) = []
   \<and> filter (contains ''://'') (all_strings notebook) = []
   \<and> map executable_lines (code_cells notebook) = [[], [], [], []]"
proof -
  have "contains ''<img src=\"figures/table_prob2_ENG.png\"'' (source_text markdown_cell)"
    by (rule phrase_in_markdown_line [of 14]) (simp_all add: source_markdown_14)
  moreover have "concat (map asset_refs (all_strings notebook_metadata)) = []"
    by (simp add: all_strings_metadata asset_refs_def delimited_eval del: delimited.simps(2))
  moreover have "map executable_lines (code_cells notebook) = [[], [], [], []]"
    by (simp add: code_cells_notebook executable_lines_code_cells)
  ultimately show ?thesis
    using metadata_notebook no_scheme_anywhere
    by (simp add: cells_notebook asset_refs_markdown_cell asset_refs_code_cells)
qed

text \<open>
  C7. Running the code cells in order, from any namespace, ends without an error and
  leaves the namespace as it was: every one of the four code cells is a single line that
  begins with \<^verbatim>\<open>#\<close>.
\<close>

theorem run_all_is_a_no_op:
  "run_all notebook ns = Inr ns
   \<and> list_all single_comment_line (code_cells notebook)
   \<and> length (code_cells notebook) = 4"
proof -
  have "list_all (\<lambda>c. executable_lines c = []) (code_cells notebook)"
    by (simp add: code_cells_notebook executable_lines_code_cells)
  then have "run_all notebook ns = Inr ns"
    unfolding run_all_def by (rule run_cells_no_statement)
  moreover have "list_all single_comment_line (code_cells notebook)"
    by (simp add: code_cells_notebook single_comment_line_def cell_lines_code_cells)
  moreover have "length (code_cells notebook) = 4"
    by (simp add: code_cells_notebook)
  ultimately show ?thesis by simp
qed

text \<open>
  C8. The notebook's top-level metadata declares a Python kernelspec (its language is
  \<^verbatim>\<open>python\<close>, as is the name in \<^verbatim>\<open>language_info\<close>), and the notebook format is
  nbformat 4 with nbformat_minor 2: the code cells are meant to run as Python.
\<close>

theorem notebook_declares_python_nbformat_4_2:
  "kernel_language notebook = Some ''python''
   \<and> language_name notebook = Some ''python''
   \<and> nbformat notebook = Some 4
   \<and> nbformat_minor notebook = Some 2"
  by (simp add: kernel_language_def language_name_def nbformat_def nbformat_minor_def
      notebook_def notebook_metadata_def)

text \<open>
  C9. The notebook is the only file of the source tree. Its markdown cell refers to
  \<^verbatim>\<open>figures/table_prob2_ENG.png\<close>, which from the notebook's directory is
  \<^verbatim>\<open>side_quests/qaoa/figures/table_prob2_ENG.png\<close>; the source tree holds no such file, so the
  reference dangles there.
\<close>

theorem image_reference_dangles:
  "map fst repository = [''side_quests/qaoa/probleme_2.ipynb'']
   \<and> cell_refs notebook = [''figures/table_prob2_ENG.png'']
   \<and> resolve notebook_path ''figures/table_prob2_ENG.png''
       = ''side_quests/qaoa/figures/table_prob2_ENG.png''
   \<and> dangling_refs repository
       = [(''side_quests/qaoa/probleme_2.ipynb'', ''figures/table_prob2_ENG.png'')]"
proof -
  have r: "resolve notebook_path ''figures/table_prob2_ENG.png''
       = ''side_quests/qaoa/figures/table_prob2_ENG.png''"
    by (simp add: resolve_def dirname_def notebook_path_def)
  have f: "map fst repository = [''side_quests/qaoa/probleme_2.ipynb'']"
    by (simp add: repository_def notebook_path_def)
  have "map_of repository (resolve notebook_path ''figures/table_prob2_ENG.png'') = None"
    unfolding r by (simp add: repository_def notebook_path_def)
  then have "dangling_refs repository = [(notebook_path, ''figures/table_prob2_ENG.png'')]"
    by (simp add: dangling_refs_def cell_refs_notebook) (simp add: repository_def cell_refs_notebook)
  with r f cell_refs_notebook show ?thesis by (simp add: notebook_path_def)
qed

end
